theory Spec2Isabelle
  imports Main "HOL-Library.Word"
begin

section \<open>Errors and log entries\<close>

text \<open>
  Go error values. \<open>ErrorString\<close> is what \<^verbatim>\<open>errors.New\<close> builds and \<open>Wrapped\<close> what
  \<^verbatim>\<open>fmt.Errorf("...: %w", err)\<close> builds (the text before the verb, and the cause). The
  other constructors are the errors the libraries hand to this program: the sentinels of
  \<^verbatim>\<open>net/http\<close>, \<^verbatim>\<open>context\<close> and \<^verbatim>\<open>database/sql\<close>, an error reported by the database
  driver, and an error of the network layer.
\<close>

datatype err =
    ErrorString string
  | Wrapped string err
  | ErrServerClosed
  | DeadlineExceeded
  | Canceled
  | ErrNoRows
  | DriverError string
  | NetError string

fun Error :: "err \<Rightarrow> string" where
  "Error (ErrorString s) = s"
| "Error (Wrapped p e) = p @ Error e"
| "Error ErrServerClosed = ''http: Server closed''"
| "Error DeadlineExceeded = ''context deadline exceeded''"
| "Error Canceled = ''context canceled''"
| "Error ErrNoRows = ''sql: no rows in result set''"
| "Error (DriverError s) = s"
| "Error (NetError s) = s"

definition errors_New :: "string \<Rightarrow> err" where
  "errors_New s = ErrorString s"

text \<open>\<^verbatim>\<open>fmt.Errorf(p + "%w", e)\<close>: the argument \<open>p\<close> is the format up to the verb.\<close>

definition Errorf :: "string \<Rightarrow> err \<Rightarrow> err" where
  "Errorf p e = Wrapped p e"

text \<open>
  A logrus entry: level, fields (\<^verbatim>\<open>WithError\<close> stores the error under the key
  \<open>error\<close>, \<^verbatim>\<open>WithField\<close> a value under the given key) and message. Durations are
  \<^verbatim>\<open>time.Duration\<close> values, a count of nanoseconds.
\<close>

datatype level = InfoLevel | ErrorLevel | FatalLevel

datatype fieldval = FieldErr err | FieldStr string | FieldDur int

record entry =
  lvl :: level
  flds :: "(string \<times> fieldval) list"
  msg :: string

section \<open>The database behind \<^verbatim>\<open>*sql.DB\<close>\<close>

text \<open>
  The table is the one the migration of the repository creates:
  \<^verbatim>\<open>CREATE TABLE items(id uuid DEFAULT public.gen_random_uuid() NOT NULL,
                     name character varying NOT NULL)\<close>.
  An identifier is a 128-bit value; the driver hands it to \<^verbatim>\<open>Scan\<close> in its text form, 32
  hexadecimal digits in groups of 8, 4, 4, 4 and 12.
\<close>

type_synonym uuid = "128 word"

definition hexdigit :: "uuid \<Rightarrow> char" where
  "hexdigit v = ''0123456789abcdef'' ! unat (take_bit 4 v)"

fun hex :: "nat \<Rightarrow> uuid \<Rightarrow> string" where
  "hex 0 v = []"
| "hex (Suc k) v = hex k (drop_bit 4 v) @ [hexdigit v]"

definition uuid_text :: "uuid \<Rightarrow> string" where
  "uuid_text u =
     hex 8 (drop_bit 96 u) @ ''-'' @ hex 4 (drop_bit 80 u) @ ''-'' @ hex 4 (drop_bit 64 u) @ ''-'' @
     hex 4 (drop_bit 48 u) @ ''-'' @ hex 12 u"

text \<open>
  What can go wrong in one round trip to the database, chosen by the environment: the
  statement fails (connection lost, server error), the \<open>k\<close>-th row of the result fails to
  scan, or the result stream breaks off with an error after \<open>k\<close> rows, before all rows
  have come (then \<^verbatim>\<open>rows.Next()\<close> returns false and the error stays in \<^verbatim>\<open>rows.Err()\<close>).
\<close>

datatype fault = NoFault | QueryFault err | ScanFault nat err | NextFault nat err

text \<open>
  The state outside the program that the request handlers touch: the rows of \<open>items\<close> in
  storage order, the check the backend applies to a name on insert, the source of random
  identifiers with the number of identifiers drawn so far, the faults of the coming round
  trips (the head is the next one; none once the list is used up), the number of result
  cursors currently open, and the log.
\<close>

record world =
  tbl :: "(uuid \<times> string) list"
  accepts :: "string \<Rightarrow> bool"
  rand :: "nat \<Rightarrow> uuid"
  drawn :: nat
  faults :: "fault list"
  cursors :: nat
  logs :: "entry list"

text \<open>\<^verbatim>\<open>ctx.Err()\<close> of a \<^verbatim>\<open>context.Context\<close>: \<open>None\<close> while the context is live.\<close>

type_synonym Context = "err option"

definition next_fault :: "world \<Rightarrow> fault" where
  "next_fault w = (case faults w of [] \<Rightarrow> NoFault | f # _ \<Rightarrow> f)"

definition round_trip :: "world \<Rightarrow> world" where
  "round_trip w = w\<lparr>faults := tl (faults w)\<rparr>"

text \<open>
  The interface \<^verbatim>\<open>Scanner\<close> has the one method \<^verbatim>\<open>Scan(dest ...interface{}) error\<close>. A value
  of it is modelled by what \<^verbatim>\<open>Scan(&i.ID, &i.Name)\<close> does with it: an error, or the texts
  of the two columns.
\<close>

type_synonym Scanner = "err + (string \<times> string)"

definition deliver :: "fault \<Rightarrow> Scanner list \<Rightarrow> Scanner list" where
  "deliver f rs =
     (case f of
        ScanFault k e \<Rightarrow> (if k < length rs then rs[k := Inl e] else rs)
      | NextFault k e \<Rightarrow> take k rs
      | _ \<Rightarrow> rs)"

text \<open>\<^verbatim>\<open>rows.Err()\<close> once \<^verbatim>\<open>rows.Next()\<close> has returned false.\<close>

definition rows_Err :: "fault \<Rightarrow> Scanner list \<Rightarrow> err option" where
  "rows_Err f rs =
     (case f of
        NextFault k e \<Rightarrow> (if k < length rs then Some e else None)
      | _ \<Rightarrow> None)"

text \<open>
  \<^verbatim>\<open>conn.QueryContext(ctx, "SELECT id, name FROM items")\<close>: an error, or the rows that
  \<^verbatim>\<open>rows.Next()\<close> will step through. A context that is already done fails the call before
  any round trip.
\<close>

definition QueryContext_select :: "Context \<Rightarrow> world \<Rightarrow> (err + Scanner list) \<times> world" where
  "QueryContext_select ctx w =
     (case ctx of
        Some e \<Rightarrow> (Inl e, w)
      | None \<Rightarrow>
          (case next_fault w of
             QueryFault e \<Rightarrow> (Inl e, round_trip w)
           | f \<Rightarrow> (Inr (deliver f (map (\<lambda>(u, n). Inr (uuid_text u, n)) (tbl w))),
                   (round_trip w)\<lparr>cursors := Suc (cursors w)\<rparr>)))"

definition rows_Close :: "world \<Rightarrow> world" where
  "rows_Close w = w\<lparr>cursors := cursors w - 1\<rparr>"

text \<open>
  \<^verbatim>\<open>conn.QueryRowContext(ctx, "INSERT INTO items(name) VALUES($1) RETURNING id, name", name)\<close>:
  the \<^verbatim>\<open>*sql.Row\<close>, whose \<^verbatim>\<open>Scan\<close> reports the error of the statement, or, when
  \<^verbatim>\<open>rows.Next()\<close> gives no row, the error of the stream and \<^verbatim>\<open>sql.ErrNoRows\<close> without
  one, or scans the first row.
\<close>

definition QueryRowContext_insert :: "Context \<Rightarrow> string \<Rightarrow> world \<Rightarrow> Scanner \<times> world" where
  "QueryRowContext_insert ctx name w =
     (case ctx of
        Some e \<Rightarrow> (Inl e, w)
      | None \<Rightarrow>
          (case next_fault w of
             QueryFault e \<Rightarrow> (Inl e, round_trip w)
           | f \<Rightarrow>
               if \<not> accepts w name then (Inl (DriverError ''pq: rejected by the table''), round_trip w)
               else
                 let u = rand w (drawn w);
                     w' = (round_trip w)\<lparr>tbl := tbl w @ [(u, name)], drawn := Suc (drawn w)\<rparr>
                 in (case deliver f [Inr (uuid_text u, name)] of
                       [] \<Rightarrow>
                         (case rows_Err f [Inr (uuid_text u, name)] of
                            Some e \<Rightarrow> (Inl e, w')
                          | None \<Rightarrow> (Inl ErrNoRows, w'))
                     | r # _ \<Rightarrow> (r, w'))))"

section \<open>Package storage\<close>

text \<open>\<^verbatim>\<open>type Storage struct { conn *sql.DB }\<close>: the handle is named by its data source.\<close>

record Storage =
  conn :: string

record CreateItemRequest =
  Name_req :: string

record Item =
  ID :: string
  Name :: string

definition ScanItem :: "Scanner \<Rightarrow> err + Item" where
  "ScanItem s = (case s of Inl e \<Rightarrow> Inl e | Inr (i, n) \<Rightarrow> Inr \<lparr>ID = i, Name = n\<rparr>)"

definition CreateItem :: "Storage \<Rightarrow> Context \<Rightarrow> CreateItemRequest \<Rightarrow> world \<Rightarrow> (err + Item) \<times> world" where
  "CreateItem s ctx i w =
     (let (row, w') = QueryRowContext_insert ctx (Name_req i) w in (ScanItem row, w'))"

text \<open>The loop \<^verbatim>\<open>for rows.Next() { ... }\<close> of \<^verbatim>\<open>ListItems\<close>, with the slice built so far.\<close>

fun scan_rows :: "Scanner list \<Rightarrow> Item list \<Rightarrow> err + Item list" where
  "scan_rows [] items = Inr items"
| "scan_rows (r # rs) items =
     (case ScanItem r of
        Inl e \<Rightarrow> Inl (Errorf ''could not scan item: '' e)
      | Inr item \<Rightarrow> scan_rows rs (items @ [item]))"

text \<open>\<^verbatim>\<open>defer rows.Close()\<close> runs on every path after the query has succeeded.\<close>

definition ListItems :: "Storage \<Rightarrow> Context \<Rightarrow> world \<Rightarrow> (err + Item list) \<times> world" where
  "ListItems s ctx w =
     (case QueryContext_select ctx w of
        (Inl e, w') \<Rightarrow> (Inl (Errorf ''could not retrieve items: '' e), w')
      | (Inr rows, w') \<Rightarrow> (scan_rows rows [], rows_Close w'))"

section \<open>net/http: requests and response writers\<close>

text \<open>
  The parts of \<^verbatim>\<open>*http.Request\<close> the handlers and the router read: the method, the path
  of the URL, the form of the request body (each key with its values) and the context.
\<close>

record Request =
  Method :: string
  Path :: string
  PostForm :: "(string \<times> string list) list"
  ctx :: Context

text \<open>\<^verbatim>\<open>req.PostFormValue(key)\<close>: the first value of the key, the empty string without one.\<close>

definition PostFormValue :: "Request \<Rightarrow> string \<Rightarrow> string" where
  "PostFormValue req key = (case map_of (PostForm req) key of Some (v # _) \<Rightarrow> v | _ \<Rightarrow> [])"

text \<open>
  An \<^verbatim>\<open>http.ResponseWriter\<close>: the status line once written, the body written so far, and
  whether the connection to the client is broken (then every write fails). Only the first
  \<^verbatim>\<open>WriteHeader\<close> counts, and a \<^verbatim>\<open>Write\<close> before any \<^verbatim>\<open>WriteHeader\<close> sends status 200
  first.
\<close>

record ResponseWriter =
  status :: "nat option"
  body :: string
  broken :: bool

definition StatusOK :: nat where "StatusOK = 200"
definition StatusCreated :: nat where "StatusCreated = 201"
definition StatusInternalServerError :: nat where "StatusInternalServerError = 500"

definition WriteHeader :: "nat \<Rightarrow> ResponseWriter \<Rightarrow> ResponseWriter" where
  "WriteHeader code w = (case status w of None \<Rightarrow> w\<lparr>status := Some code\<rparr> | Some _ \<Rightarrow> w)"

definition Write :: "string \<Rightarrow> ResponseWriter \<Rightarrow> err option \<times> ResponseWriter" where
  "Write bytes w =
     (let w' = WriteHeader StatusOK w in
      if broken w' then (Some (NetError ''write: broken pipe''), w')
      else (None, w'\<lparr>body := body w' @ bytes\<rparr>))"

definition new_writer :: "bool \<Rightarrow> ResponseWriter" where
  "new_writer b = \<lparr>status = None, body = [], broken = b\<rparr>"

section \<open>Package apiserver\<close>

record APIServer =
  addr :: string
  storage :: Storage

definition NewAPIServer :: "string \<Rightarrow> Storage \<Rightarrow> err + APIServer" where
  "NewAPIServer a st =
     (if a = [] then Inl (errors_New ''addr cannot be blank'')
      else Inr \<lparr>addr = a, storage = st\<rparr>)"

definition logrus :: "entry \<Rightarrow> world \<Rightarrow> world" where
  "logrus e wd = wd\<lparr>logs := logs wd @ [e]\<rparr>"

type_synonym EndpointFunc =
  "ResponseWriter \<Rightarrow> Request \<Rightarrow> world \<Rightarrow> err option \<times> ResponseWriter \<times> world"

record Endpoint =
  handler :: EndpointFunc

definition ServeHTTP :: "Endpoint \<Rightarrow> ResponseWriter \<Rightarrow> Request \<Rightarrow> world \<Rightarrow> ResponseWriter \<times> world" where
  "ServeHTTP e w req wd =
     (case handler e w req wd of
        (None, w', wd') \<Rightarrow> (w', wd')
      | (Some er, w', wd') \<Rightarrow>
          (snd (Write ''internal server error'' (WriteHeader StatusInternalServerError w')),
           logrus \<lparr>lvl = ErrorLevel, flds = [(''error'', FieldErr er)],
                   msg = ''could not process request''\<rparr> wd'))"

definition defaultRoute :: "APIServer \<Rightarrow> ResponseWriter \<Rightarrow> Request \<Rightarrow> ResponseWriter" where
  "defaultRoute s w r = snd (Write ''Hello World'' (WriteHeader StatusOK w))"

definition createItem :: "APIServer \<Rightarrow> EndpointFunc" where
  "createItem s w req wd =
     (case CreateItem (storage s) (ctx req) \<lparr>Name_req = PostFormValue req ''name''\<rparr> wd of
        (Inl er, wd') \<Rightarrow> (Some er, w, wd')
      | (Inr item, wd') \<Rightarrow>
          (let (er, w') = Write (''New Item ID: '' @ ID item) (WriteHeader StatusCreated w)
           in (er, w', wd')))"

text \<open>The loop of \<^verbatim>\<open>listItems\<close>; the result of each \<^verbatim>\<open>w.Write\<close> is dropped.\<close>

definition item_line :: "Item \<Rightarrow> string" where
  "item_line item = ID item @ '' - '' @ Name item @ [CHR 0x0A]"

fun write_items :: "Item list \<Rightarrow> ResponseWriter \<Rightarrow> ResponseWriter" where
  "write_items [] w = w"
| "write_items (item # items) w = write_items items (snd (Write (item_line item) w))"

definition listItems :: "APIServer \<Rightarrow> EndpointFunc" where
  "listItems s w req wd =
     (case ListItems (storage s) (ctx req) wd of
        (Inl er, wd') \<Rightarrow> (Some er, w, wd')
      | (Inr items, wd') \<Rightarrow> (None, write_items items w, wd'))"

text \<open>
  The routing table \<^verbatim>\<open>router()\<close> builds: \<^verbatim>\<open>router.HandleFunc("/", s.defaultRoute)\<close>
  registers a plain handler function for every method, the two
  \<^verbatim>\<open>router.Methods(m).Path("/items").Handler(Endpoint{...})\<close> register an \<^verbatim>\<open>Endpoint\<close>
  for one method.
\<close>

datatype Handler =
    is_func: HandlerFunc "ResponseWriter \<Rightarrow> Request \<Rightarrow> ResponseWriter"
  | is_endpoint: EndpointHandler Endpoint

record route =
  methods :: "string list"
  rpath :: string
  hnd :: Handler

definition router :: "APIServer \<Rightarrow> route list" where
  "router s =
     [\<lparr>methods = [], rpath = ''/'', hnd = HandlerFunc (defaultRoute s)\<rparr>,
      \<lparr>methods = [''POST''], rpath = ''/items'', hnd = EndpointHandler \<lparr>handler = createItem s\<rparr>\<rparr>,
      \<lparr>methods = [''GET''], rpath = ''/items'', hnd = EndpointHandler \<lparr>handler = listItems s\<rparr>\<rparr>]"

definition matches :: "Request \<Rightarrow> route \<Rightarrow> bool" where
  "matches req r = (rpath r = Path req \<and> (methods r = [] \<or> Method req \<in> set (methods r)))"

definition run_handler :: "Handler \<Rightarrow> ResponseWriter \<Rightarrow> Request \<Rightarrow> world \<Rightarrow> ResponseWriter \<times> world" where
  "run_handler h w req wd =
     (case h of HandlerFunc f \<Rightarrow> (f w req, wd) | EndpointHandler e \<Rightarrow> ServeHTTP e w req wd)"

text \<open>
  One request through the server: the first route that matches handles it on a new
  response writer, and when the handler returns without a status the server sends 200. A
  request no route matches is answered by the router library alone (\<open>None\<close> here).
\<close>

definition serve :: "APIServer \<Rightarrow> bool \<Rightarrow> Request \<Rightarrow> world \<Rightarrow> (ResponseWriter \<times> world) option" where
  "serve s b req wd =
     (case find (matches req) (router s) of
        None \<Rightarrow> None
      | Some r \<Rightarrow>
          (let (w', wd') = run_handler (hnd r) (new_writer b) req wd
           in Some (WriteHeader StatusOK w', wd')))"

section \<open>APIServer.Start\<close>

text \<open>\<^verbatim>\<open>var defaultStopTimeout = time.Second * 30\<close>, in nanoseconds.\<close>

definition Second :: int where "Second = 1000000000"

definition defaultStopTimeout :: int where
  "defaultStopTimeout = Second * 30"

text \<open>
  \<^verbatim>\<open>srv.Shutdown(ctx)\<close> of net/http closes the listeners, keeping the error of that, and
  then polls: when \<^verbatim>\<open>closeIdleConns\<close> finds every connection idle it returns the error of the
  listeners; otherwise it waits for the context or for its timer, returns \<^verbatim>\<open>ctx.Err()\<close> when
  the context is done first, and polls again when the timer fires. The timer runs for the
  poll interval, which starts at one millisecond, doubles up to 500 milliseconds and gets
  a random extra of less than a tenth each time. The environment fixes how long after the
  call the connections are idle (\<open>None\<close>: never), what closing the listeners returns, and
  the random numbers. Times are nanoseconds from the call on. A timer and a deadline that
  fall on the same instant count as the deadline.
\<close>

definition Millisecond :: int where "Millisecond = 1000000"

definition shutdownPollIntervalMax :: int where
  "shutdownPollIntervalMax = 500 * Millisecond"

record httpenv =
  drain :: "int option"
  close_err :: "err option"
  jitter :: "nat \<Rightarrow> int"

text \<open>The base of the interval after \<open>k\<close> polls, and the interval with its random extra.\<close>

definition pollIntervalBase :: "nat \<Rightarrow> int" where
  "pollIntervalBase k = min (2 ^ k * Millisecond) shutdownPollIntervalMax"

definition nextPollInterval :: "httpenv \<Rightarrow> nat \<Rightarrow> int" where
  "nextPollInterval env k = pollIntervalBase k + jitter env k mod (pollIntervalBase k div 10)"

definition closeIdleConns :: "httpenv \<Rightarrow> int \<Rightarrow> bool" where
  "closeIdleConns env t = (case drain env of None \<Rightarrow> False | Some d \<Rightarrow> d \<le> t)"

function shutdown_poll :: "httpenv \<Rightarrow> int \<Rightarrow> nat \<Rightarrow> int \<Rightarrow> err option" where
  "shutdown_poll env timeout k t =
     (if closeIdleConns env t then close_err env
      else if timeout \<le> t + nextPollInterval env k then Some DeadlineExceeded
      else shutdown_poll env timeout (Suc k) (t + nextPollInterval env k))"
  by pat_completeness auto
termination
proof (relation "measure (\<lambda>(env, timeout, k, t). nat (timeout - t))")
  show "wf (measure (\<lambda>(env, timeout, k, t). nat (timeout - t)))" by simp
next
  fix env :: httpenv and timeout :: int and k :: nat and t :: int
  assume later: "\<not> timeout \<le> t + nextPollInterval env k"
  have "(1::int) \<le> 2 ^ k" by simp
  then have base: "1000000 \<le> pollIntervalBase k"
    by (simp add: pollIntervalBase_def shutdownPollIntervalMax_def Millisecond_def)
  then have "0 < pollIntervalBase k div 10" by simp
  then have "0 \<le> jitter env k mod (pollIntervalBase k div 10)" by (rule pos_mod_sign)
  with base have "0 < nextPollInterval env k" unfolding nextPollInterval_def by linarith
  with later show "((env, timeout, Suc k, t + nextPollInterval env k), (env, timeout, k, t))
      \<in> measure (\<lambda>(env, timeout, k, t). nat (timeout - t))"
    by simp
qed

declare shutdown_poll.simps [simp del]

definition Shutdown :: "httpenv \<Rightarrow> int \<Rightarrow> err option" where
  "Shutdown env timeout = shutdown_poll env timeout 0 0"

text \<open>
  \<^verbatim>\<open>Start\<close> runs two threads: the caller's, which waits at \<^verbatim>\<open><-stop\<close>, then calls
  \<^verbatim>\<open>Shutdown\<close> with the timeout and returns its result; and the goroutine, which logs,
  calls \<^verbatim>\<open>ListenAndServe\<close> and, when that returns an error other than
  \<^verbatim>\<open>http.ErrServerClosed\<close>, calls \<^verbatim>\<open>logrus.Fatalf\<close>, which logs and exits the process with
  code 1. A run is a list of events: the stop channel fires, the scheduler runs one step of
  a thread, or \<^verbatim>\<open>ListenAndServe\<close> returns.
\<close>

datatype main_pc = AtRecvStop | InShutdown int | Returned "err option"

datatype go_pc = Spawned | InListenAndServe | GoEnded

record start_state =
  mpc :: main_pc
  gpc :: go_pc
  stop_fired :: bool
  exited :: "nat option"
  slogs :: "entry list"

datatype start_ev = StopFires | RunMain | RunGo | ListenReturns "err option"

definition start_init :: "entry list \<Rightarrow> start_state" where
  "start_init lg = \<lparr>mpc = AtRecvStop, gpc = Spawned, stop_fired = False, exited = None, slogs = lg\<rparr>"

definition Fatalf_listen :: "err \<Rightarrow> start_state \<Rightarrow> start_state" where
  "Fatalf_listen e st =
     st\<lparr>slogs := slogs st @ [\<lparr>lvl = FatalLevel, flds = [], msg = ''listen: '' @ Error e @ [CHR 0x0A]\<rparr>],
        exited := Some 1\<rparr>"

definition start_step :: "APIServer \<Rightarrow> httpenv \<Rightarrow> start_ev \<Rightarrow> start_state \<Rightarrow> start_state" where
  "start_step s env ev st =
     (if exited st \<noteq> None then st
      else case ev of
        StopFires \<Rightarrow> st\<lparr>stop_fired := True\<rparr>
      | RunGo \<Rightarrow>
          (case gpc st of
             Spawned \<Rightarrow>
               st\<lparr>gpc := InListenAndServe,
                  slogs := slogs st @ [\<lparr>lvl = InfoLevel, flds = [(''addr'', FieldStr (addr s))],
                                        msg = ''starting server''\<rparr>]\<rparr>
           | _ \<Rightarrow> st)
      | ListenReturns r \<Rightarrow>
          (case gpc st of
             InListenAndServe \<Rightarrow>
               (case r of
                  None \<Rightarrow> st\<lparr>gpc := GoEnded\<rparr>
                | Some e \<Rightarrow> if e \<noteq> ErrServerClosed then Fatalf_listen e st else st\<lparr>gpc := GoEnded\<rparr>)
           | _ \<Rightarrow> st)
      | RunMain \<Rightarrow>
          (case mpc st of
             AtRecvStop \<Rightarrow>
               if stop_fired st
               then st\<lparr>mpc := InShutdown defaultStopTimeout,
                       slogs := slogs st @ [\<lparr>lvl = InfoLevel,
                                             flds = [(''timeout'', FieldDur defaultStopTimeout)],
                                             msg = ''stopping server''\<rparr>]\<rparr>
               else st
           | InShutdown t \<Rightarrow> st\<lparr>mpc := Returned (Shutdown env t)\<rparr>
           | Returned r \<Rightarrow> st))"

fun start_run :: "APIServer \<Rightarrow> httpenv \<Rightarrow> start_ev list \<Rightarrow> start_state \<Rightarrow> start_state" where
  "start_run s env [] st = st"
| "start_run s env (ev # evs) st = start_run s env evs (start_step s env ev st)"

text \<open>
  What the caller of \<^verbatim>\<open>Start\<close> sees at the end of a run: the call has returned a value,
  the process has exited with a code, or the call is still blocked.
\<close>

datatype outcome = Returns "err option" | Exits nat | Blocked

definition outcome_of :: "start_state \<Rightarrow> outcome" where
  "outcome_of st =
     (case exited st of
        Some c \<Rightarrow> Exits c
      | None \<Rightarrow> (case mpc st of Returned r \<Rightarrow> Returns r | _ \<Rightarrow> Blocked))"

definition Start :: "APIServer \<Rightarrow> httpenv \<Rightarrow> start_ev list \<Rightarrow> entry list \<Rightarrow> outcome \<times> entry list" where
  "Start s env evs lg =
     (let st = start_run s env evs (start_init lg) in (outcome_of st, slogs st))"

section \<open>Package storage: construction\<close>

text \<open>
  The state \<^verbatim>\<open>main\<close> touches before the server runs: the drivers registered with
  \<^verbatim>\<open>database/sql\<close> (the import of \<^verbatim>\<open>github.com/lib/pq\<close> in the package registers
  \<open>postgres\<close>), what the driver reports for a data source when a connection is first
  opened with it, the calls of \<^verbatim>\<open>sql.Open\<close> made so far, and the log.
\<close>

record process =
  drivers :: "string list"
  dial_err :: "string \<Rightarrow> err option"
  opened :: "(string \<times> string) list"
  plogs :: "entry list"

text \<open>
  The error of \<^verbatim>\<open>sql.Open(driverName, dataSourceName)\<close>: it looks the driver up and, for
  this driver, returns the handle without reading the data source and without opening a
  connection. The data source is first used on the first round trip.
\<close>

definition sql_Open_err :: "process \<Rightarrow> string \<Rightarrow> string \<Rightarrow> err option" where
  "sql_Open_err p driverName dataSourceName =
     (if driverName \<in> set (drivers p) then None
      else Some (ErrorString (''sql: unknown driver '' @ [CHR 0x22] @ driverName @ [CHR 0x22] @
                              '' (forgotten import?)'')))"

definition first_round_trip :: "process \<Rightarrow> Storage \<Rightarrow> fault" where
  "first_round_trip p s = (case dial_err p (conn s) of None \<Rightarrow> NoFault | Some e \<Rightarrow> QueryFault e)"

definition NewStorage :: "string \<Rightarrow> process \<Rightarrow> (err + Storage) \<times> process" where
  "NewStorage databaseURL p =
     (let p' = p\<lparr>opened := opened p @ [(''postgres'', databaseURL)]\<rparr> in
      case sql_Open_err p ''postgres'' databaseURL of
        Some e \<Rightarrow> (Inl (Errorf ''could not open sql: '' e), p')
      | None \<Rightarrow> (Inr \<lparr>conn = databaseURL\<rparr>, p'))"

section \<open>main.go\<close>

text \<open>
  The goroutine of the action, \<^verbatim>\<open>go func() { <-done; close(stopper) }()\<close>, and the channel
  \<open>done\<close> of capacity 1 that \<^verbatim>\<open>signal.Notify\<close> feeds: a signal is put into the channel when
  there is room and dropped otherwise (the send of \<^verbatim>\<open>Notify\<close> never blocks). Closing a
  closed channel panics. A run is a list of events: a signal arrives, or the scheduler runs
  one step of the goroutine.
\<close>

datatype signal = SIGINT | SIGTERM

datatype sig_pc = AtRecvDone | AtCloseStopper | Finished

record sig_state =
  done_chan :: "signal list"
  spc :: sig_pc
  stopper_closed :: bool
  closes :: nat
  panicked :: bool

datatype sig_ev = Notify signal | RunSig

definition sig_init :: sig_state where
  "sig_init = \<lparr>done_chan = [], spc = AtRecvDone, stopper_closed = False, closes = 0, panicked = False\<rparr>"

definition close_stopper :: "sig_state \<Rightarrow> sig_state" where
  "close_stopper st =
     (if stopper_closed st then st\<lparr>panicked := True\<rparr>
      else st\<lparr>stopper_closed := True, closes := Suc (closes st)\<rparr>)"

definition sig_step :: "sig_ev \<Rightarrow> sig_state \<Rightarrow> sig_state" where
  "sig_step ev st =
     (if panicked st then st
      else case ev of
        Notify sg \<Rightarrow> (if length (done_chan st) < 1 then st\<lparr>done_chan := done_chan st @ [sg]\<rparr> else st)
      | RunSig \<Rightarrow>
          (case spc st of
             AtRecvDone \<Rightarrow>
               (case done_chan st of
                  [] \<Rightarrow> st
                | sg # rest \<Rightarrow> st\<lparr>done_chan := rest, spc := AtCloseStopper\<rparr>)
           | AtCloseStopper \<Rightarrow> (close_stopper st)\<lparr>spc := Finished\<rparr>
           | Finished \<Rightarrow> st))"

fun sig_run :: "sig_ev list \<Rightarrow> sig_state \<Rightarrow> sig_state" where
  "sig_run [] st = st"
| "sig_run (ev # evs) st = sig_run evs (sig_step ev st)"

text \<open>
  The action of the \<open>start\<close> command, from the values of the two flags on: storage, then
  server, then \<^verbatim>\<open>server.Start(stopper)\<close>, whose run is given by the events of the server
  (the firing of the stop channel among them).
\<close>

definition Action :: "string \<Rightarrow> string \<Rightarrow> httpenv \<Rightarrow> start_ev list \<Rightarrow> process \<Rightarrow> outcome \<times> process" where
  "Action a databaserURL env evs p =
     (case NewStorage databaserURL p of
        (Inl e, p') \<Rightarrow> (Returns (Some (Errorf ''could not initialize storage: '' e)), p')
      | (Inr s, p') \<Rightarrow>
          (case NewAPIServer a s of
             Inl e \<Rightarrow> (Returns (Some e), p')
           | Inr server \<Rightarrow>
               (let (out, lg) = Start server env evs (plogs p') in (out, p'\<lparr>plogs := lg\<rparr>))))"

text \<open>
  \<^verbatim>\<open>main\<close>: an error from the action is logged by \<^verbatim>\<open>logrus.WithError(err).Fatal\<close>, which
  exits with code 1; without an error \<^verbatim>\<open>main\<close> returns and the process exits with code 0.
\<close>

definition main :: "string \<Rightarrow> string \<Rightarrow> httpenv \<Rightarrow> start_ev list \<Rightarrow> process \<Rightarrow> outcome \<times> process" where
  "main a databaserURL env evs p =
     (case Action a databaserURL env evs p of
        (Returns (Some e), p') \<Rightarrow>
          (Exits 1, p'\<lparr>plogs := plogs p' @ [\<lparr>lvl = FatalLevel, flds = [(''error'', FieldErr e)],
                                               msg = ''could not run application''\<rparr>]\<rparr>)
      | (Returns None, p') \<Rightarrow> (Exits 0, p')
      | (out, p') \<Rightarrow> (out, p'))"

section \<open>Predicates and invariants\<close>


text \<open>The item \<^verbatim>\<open>Scan\<close> builds from a stored row.\<close>

definition item_of :: "uuid \<times> string \<Rightarrow> Item" where
  "item_of r = \<lparr>ID = uuid_text (fst r), Name = snd r\<rparr>"

text \<open>A route whose handler is an \<^verbatim>\<open>Endpoint\<close>.\<close>

definition wrapped :: "route \<Rightarrow> bool" where
  "wrapped r = is_endpoint (hnd r)"

text \<open>
  The invariant of the signal goroutine: no panic, at most one signal queued, and the
  channel \<open>stopper\<close> closed, once, exactly when the goroutine has finished. Its rank is
  the number of steps it still has to run; it has been signalled when it is past the
  receive or a signal is queued.
\<close>

definition sig_inv :: "sig_state \<Rightarrow> bool" where
  "sig_inv st =
     (\<not> panicked st \<and> length (done_chan st) \<le> 1 \<and>
      (case spc st of
         Finished \<Rightarrow> stopper_closed st \<and> closes st = 1
       | _ \<Rightarrow> \<not> stopper_closed st \<and> closes st = 0))"

definition sig_rank :: "sig_state \<Rightarrow> nat" where
  "sig_rank st = (case spc st of AtRecvDone \<Rightarrow> 2 | AtCloseStopper \<Rightarrow> 1 | Finished \<Rightarrow> 0)"

definition signalled :: "sig_state \<Rightarrow> bool" where
  "signalled st = (spc st = AtRecvDone \<longrightarrow> done_chan st \<noteq> [])"



section \<open>Example states\<close>

text \<open>
  An empty table on a backend that takes every name and has no fault ahead, a server on
  port 3000, and a request of each kind.
\<close>

definition world0 :: world where
  "world0 = \<lparr>tbl = [], accepts = (\<lambda>n. True), rand = (\<lambda>k. word_of_nat (Suc k)), drawn = 0,
             faults = [], cursors = 0, logs = []\<rparr>"

definition store0 :: Storage where
  "store0 = \<lparr>conn = ''postgres://local-dev@db/api?sslmode=disable''\<rparr>"

definition server0 :: APIServer where
  "server0 = \<lparr>addr = '':3000'', storage = store0\<rparr>"

definition post_widget :: Request where
  "post_widget = \<lparr>Method = ''POST'', Path = ''/items'', PostForm = [(''name'', [''widget''])], ctx = None\<rparr>"

definition get_items :: Request where
  "get_items = \<lparr>Method = ''GET'', Path = ''/items'', PostForm = [], ctx = None\<rparr>"

text \<open>Two rows in the table, and the second one fails to scan on the next query.\<close>

definition world_bad_row :: world where
  "world_bad_row = world0\<lparr>tbl := [(1, ''nut''), (2, ''bolt'')],
                          faults := [ScanFault 1 (DriverError ''pq: unexpected EOF'')]\<rparr>"

text \<open>The same empty table behind a connection that fails the next statement.\<close>

definition world_down :: world where
  "world_down = world0\<lparr>faults := [QueryFault (DriverError ''pq: connection refused'')]\<rparr>"

text \<open>
  The process at its start: the driver \<open>postgres\<close> registered, a driver that cannot connect
  with a data source that has no scheme, no call made and nothing logged.
\<close>

definition process0 :: process where
  "process0 = \<lparr>drivers = [''postgres''],
               dial_err = (\<lambda>u. if take 11 u = ''postgres://'' then None
                                else Some (DriverError ''pq: invalid connection string'')),
               opened = [], plogs = []\<rparr>"

text \<open>
  A server whose storage was opened with such a data source, and the world at the first
  round trip through that storage.
\<close>

definition server_bad_url :: APIServer where
  "server_bad_url = \<lparr>addr = '':3000'', storage = \<lparr>conn = ''local-dev@db/api''\<rparr>\<rparr>"

definition world_first_trip :: world where
  "world_first_trip = world0\<lparr>faults := [first_round_trip process0 (storage server_bad_url)]\<rparr>"

text \<open>
  Servers without an open connection at the shutdown, and one whose last request ends
  29.95 seconds after it; the listeners close without an error and the random extra of the
  poll interval is always 0.
\<close>

definition env_idle :: httpenv where
  "env_idle = \<lparr>drain = Some 0, close_err = None, jitter = (\<lambda>k. 0)\<rparr>"



section \<open>Storage: creating and listing\<close>



lemma deliver_Nil: "deliver f [] = []"
  by (cases f) (simp_all add: deliver_def)

lemma scan_rows_err:
  "scan_rows rs acc = Inl e \<Longrightarrow>
   \<exists>e0. Inl e0 \<in> set rs \<and> e = Errorf ''could not scan item: '' e0"
proof (induction rs arbitrary: acc)
  case Nil
  then show ?case by simp
next
  case (Cons r rs)
  show ?case
  proof (cases r)
    case (Inl e0)
    with Cons.prems show ?thesis by (auto simp: ScanItem_def)
  next
    case (Inr p)
    with Cons.prems have "scan_rows rs (acc @ [\<lparr>ID = fst p, Name = snd p\<rparr>]) = Inl e"
      by (simp add: ScanItem_def split: prod.splits)
    from Cons.IH [OF this] show ?thesis by auto
  qed
qed

lemma scan_rows_rendered:
  "scan_rows (map (\<lambda>(u, n). Inr (uuid_text u, n)) rs) acc = Inr (acc @ map item_of rs)"
  by (induction rs arbitrary: acc) (auto simp: ScanItem_def item_of_def)



lemma CreateItem_ok:
  assumes "next_fault w = NoFault" "accepts w name"
  shows "CreateItem s None \<lparr>Name_req = name\<rparr> w =
           (Inr \<lparr>ID = uuid_text (rand w (drawn w)), Name = name\<rparr>,
            (round_trip w)\<lparr>tbl := tbl w @ [(rand w (drawn w), name)], drawn := Suc (drawn w)\<rparr>)"
  using assms
  by (simp add: CreateItem_def QueryRowContext_insert_def deliver_def ScanItem_def Let_def)


text \<open>
  When the result stream breaks off after \<open>k\<close> rows, the loop of \<open>ListItems\<close> ends as it
  does after the last row: \<^verbatim>\<open>rows.Err()\<close> is not read, and the first \<open>k\<close> items come back
  without an error.
\<close>

lemma ListItems_stream_breaks:
  assumes "next_fault w = NextFault k e"
  shows "ListItems s None w = (Inr (map item_of (take k (tbl w))), round_trip w)"
proof -
  have "scan_rows (take k (map (\<lambda>(u, n). Inr (uuid_text u, n)) (tbl w))) [] =
        Inr (map item_of (take k (tbl w)))"
    using scan_rows_rendered [of "take k (tbl w)" "[]"] by (simp add: take_map)
  with assms show ?thesis
    by (simp add: ListItems_def QueryContext_select_def deliver_def rows_Close_def round_trip_def)
qed

text \<open>
  When the stream of an insert breaks off before its row, \<^verbatim>\<open>Row.Scan\<close> returns the error
  of the stream, and \<open>CreateItem\<close> with it, although the row has been stored.
\<close>

lemma CreateItem_stream_breaks:
  assumes "next_fault w = NextFault 0 e" "accepts w name"
  shows "CreateItem s None \<lparr>Name_req = name\<rparr> w =
           (Inl e, (round_trip w)\<lparr>tbl := tbl w @ [(rand w (drawn w), name)],
                                  drawn := Suc (drawn w)\<rparr>)"
  using assms
  by (simp add: CreateItem_def QueryRowContext_insert_def deliver_def rows_Err_def ScanItem_def
      Let_def)

section \<open>Responses\<close>

lemma find_get_items:
  "Method req = ''GET'' \<Longrightarrow> Path req = ''/items'' \<Longrightarrow>
   find (matches req) (router s) =
     Some \<lparr>methods = [''GET''], rpath = ''/items'', hnd = EndpointHandler \<lparr>handler = listItems s\<rparr>\<rparr>"
  by (simp add: router_def matches_def)

lemma find_post_items:
  "Method req = ''POST'' \<Longrightarrow> Path req = ''/items'' \<Longrightarrow>
   find (matches req) (router s) =
     Some \<lparr>methods = [''POST''], rpath = ''/items'', hnd = EndpointHandler \<lparr>handler = createItem s\<rparr>\<rparr>"
  by (simp add: router_def matches_def)

lemma error_response:
  "WriteHeader StatusOK
     (snd (Write ''internal server error'' (WriteHeader StatusInternalServerError (new_writer b)))) =
   \<lparr>status = Some 500, body = (if b then [] else ''internal server error''), broken = b\<rparr>"
  by (simp add: new_writer_def WriteHeader_def Write_def StatusOK_def StatusInternalServerError_def)




lemma uuid_text_1: "uuid_text 1 = ''00000000-0000-0000-0000-000000000001''"
  by code_simp

lemma CreateItem_world0:
  "CreateItem store0 None \<lparr>Name_req = ''widget''\<rparr> world0 =
     (Inr \<lparr>ID = ''00000000-0000-0000-0000-000000000001'', Name = ''widget''\<rparr>,
      world0\<lparr>tbl := [(1, ''widget'')], drawn := 1\<rparr>)"
proof -
  have "next_fault world0 = NoFault" "accepts world0 ''widget''"
    by (simp_all add: next_fault_def world0_def)
  from CreateItem_ok [OF this, of store0] show ?thesis
    by (simp add: world0_def round_trip_def uuid_text_1)
qed

lemma ListItems_bad_row:
  "ListItems store0 None world_bad_row =
     (Inl (Errorf ''could not scan item: '' (DriverError ''pq: unexpected EOF'')),
      world_bad_row\<lparr>faults := []\<rparr>)"
  by (simp add: ListItems_def QueryContext_select_def next_fault_def world_bad_row_def world0_def
      deliver_def round_trip_def rows_Close_def ScanItem_def)

lemma CreateItem_world_down:
  "CreateItem store0 None \<lparr>Name_req = ''widget''\<rparr> world_down =
     (Inl (DriverError ''pq: connection refused''), world0)"
  by (simp add: CreateItem_def QueryRowContext_insert_def next_fault_def world_down_def world0_def
      round_trip_def ScanItem_def)

lemma ListItems_world0: "ListItems store0 None world0 = (Inr [], world0)"
  by (simp add: ListItems_def QueryContext_select_def next_fault_def world0_def deliver_def
      round_trip_def rows_Close_def)

lemma logs_world0: "logs world0 = []"
  by (simp add: world0_def)

lemma logs_world_bad_row: "logs world_bad_row = []"
  by (simp add: world_bad_row_def world0_def)

section \<open>Storage and handlers: the properties\<close>



text \<open>
  C5. \<open>NewAPIServer\<close> with the empty address returns the error "addr cannot be blank" and no
  server, and with any other address it returns the server. The function takes no state
  and returns none: binding the address is left to \<open>Start\<close>, which the action of
  \<^verbatim>\<open>main.go\<close> never reaches with the empty address, whatever the events of the run.
\<close>

theorem NewAPIServer_addr:
  "NewAPIServer [] st = Inl (errors_New ''addr cannot be blank'')
   \<and> (a \<noteq> [] \<longrightarrow> NewAPIServer a st = Inr \<lparr>addr = a, storage = st\<rparr>)
   \<and> (sql_Open_err p ''postgres'' url = None \<longrightarrow>
        Action [] url env evs p =
          (Returns (Some (errors_New ''addr cannot be blank'')),
           p\<lparr>opened := opened p @ [(''postgres'', url)]\<rparr>))"
  by (simp add: NewAPIServer_def Action_def NewStorage_def Let_def)

theorem NewAPIServer_addr_witness:
  "'':3000'' \<noteq> [] \<and> NewAPIServer '':3000'' store0 = Inr server0 \<and>
   sql_Open_err process0 ''postgres'' ''postgres://db/api'' = None \<and>
   Action [] ''postgres://db/api'' env_idle [RunGo, StopFires, RunMain, RunMain] process0 =
     (Returns (Some (ErrorString ''addr cannot be blank'')),
      process0\<lparr>opened := [(''postgres'', ''postgres://db/api'')]\<rparr>)"
  using NewAPIServer_addr [of store0 "'':3000''" process0 "''postgres://db/api''"
      "env_idle" "[RunGo, StopFires, RunMain, RunMain]"]
  by (simp add: server0_def process0_def errors_New_def sql_Open_err_def)

text \<open>
  C6. A request POST /items is answered from the result of \<open>CreateItem\<close> called with the
  form field \<open>name\<close>, and the state it leaves is the one this call left: when the call
  returns an item, the status is 201 and the body is "New Item ID: " followed by the
  identifier; when it returns an error, the status is 500, the body is
  "internal server error" and the error is logged. (On a broken connection the status is
  the same, no body goes out and the error of the write is logged.)
\<close>

theorem createItem_response:
  "(Method req = ''POST'' \<and> Path req = ''/items'' \<and>
    CreateItem (storage s) (ctx req) \<lparr>Name_req = PostFormValue req ''name''\<rparr> wd = (Inr item, wd') \<longrightarrow>
      serve s b req wd =
        Some (\<lparr>status = Some 201, body = (if b then [] else ''New Item ID: '' @ ID item), broken = b\<rparr>,
              (if b then logrus \<lparr>lvl = ErrorLevel,
                                 flds = [(''error'', FieldErr (NetError ''write: broken pipe''))],
                                 msg = ''could not process request''\<rparr> wd'
               else wd')))
   \<and> (Method req = ''POST'' \<and> Path req = ''/items'' \<and>
    CreateItem (storage s) (ctx req) \<lparr>Name_req = PostFormValue req ''name''\<rparr> wd = (Inl e, wd') \<longrightarrow>
      serve s b req wd =
        Some (\<lparr>status = Some 500, body = (if b then [] else ''internal server error''), broken = b\<rparr>,
              logrus \<lparr>lvl = ErrorLevel, flds = [(''error'', FieldErr e)],
                      msg = ''could not process request''\<rparr> wd'))"
  by (simp add: serve_def find_post_items run_handler_def ServeHTTP_def createItem_def error_response)
     (simp add: new_writer_def WriteHeader_def Write_def StatusOK_def StatusCreated_def
        StatusInternalServerError_def)

theorem createItem_response_witness:
  "Method post_widget = ''POST'' \<and> Path post_widget = ''/items'' \<and>
   PostFormValue post_widget ''name'' = ''widget'' \<and>
   CreateItem (storage server0) (ctx post_widget) \<lparr>Name_req = ''widget''\<rparr> world0 =
     (Inr \<lparr>ID = ''00000000-0000-0000-0000-000000000001'', Name = ''widget''\<rparr>,
      world0\<lparr>tbl := [(1, ''widget'')], drawn := 1\<rparr>) \<and>
   serve server0 False post_widget world0 =
     Some (\<lparr>status = Some 201, body = ''New Item ID: 00000000-0000-0000-0000-000000000001'',
            broken = False\<rparr>,
           world0\<lparr>tbl := [(1, ''widget'')], drawn := 1\<rparr>) \<and>
   CreateItem (storage server0) (ctx post_widget) \<lparr>Name_req = ''widget''\<rparr> world_down =
     (Inl (DriverError ''pq: connection refused''), world0) \<and>
   serve server0 False post_widget world_down =
     Some (\<lparr>status = Some 500, body = ''internal server error'', broken = False\<rparr>,
           world0\<lparr>logs := [\<lparr>lvl = ErrorLevel,
                             flds = [(''error'', FieldErr (DriverError ''pq: connection refused''))],
                             msg = ''could not process request''\<rparr>]\<rparr>)"
  using createItem_response [where req = post_widget and s = server0 and wd = world0 and b = False
          and item = "\<lparr>ID = ''00000000-0000-0000-0000-000000000001'', Name = ''widget''\<rparr>"
          and wd' = "world0\<lparr>tbl := [(1, ''widget'')], drawn := 1\<rparr>"]
        createItem_response [where req = post_widget and s = server0 and wd = world_down and b = False
          and e = "DriverError ''pq: connection refused''" and wd' = world0]
  by (simp add: post_widget_def server0_def PostFormValue_def CreateItem_world0 CreateItem_world_down
      logrus_def logs_world0)

text \<open>
  C7. On a table without rows, whenever the query itself succeeds, the result has no rows
  and \<open>ListItems\<close> returns the empty sequence and no error. \<open>ListItems\<close> returns an error
  only when the query failed (the error wraps the cause with "could not retrieve items")
  or when a row of the result failed to scan (wrapped with "could not scan item").
\<close>

theorem ListItems_empty_and_errors:
  "(tbl w = [] \<and> fst (QueryContext_select c w) = Inr rows \<longrightarrow>
      rows = [] \<and> fst (ListItems s c w) = Inr [])
   \<and> (fst (ListItems s c w) = Inl e \<longrightarrow>
        (\<exists>e0. fst (QueryContext_select c w) = Inl e0 \<and> e = Errorf ''could not retrieve items: '' e0)
      \<or> (\<exists>rs e0. fst (QueryContext_select c w) = Inr rs \<and> Inl e0 \<in> set rs \<and>
                   e = Errorf ''could not scan item: '' e0))"
proof (intro conjI impI)
  assume a: "tbl w = [] \<and> fst (QueryContext_select c w) = Inr rows"
  then show "rows = []"
    by (auto simp: QueryContext_select_def deliver_Nil split: option.splits fault.splits)
  with a show "fst (ListItems s c w) = Inr []"
    by (cases "QueryContext_select c w") (auto simp: ListItems_def)
next
  assume f: "fst (ListItems s c w) = Inl e"
  obtain r w' where q: "QueryContext_select c w = (r, w')"
    by (cases "QueryContext_select c w")
  show "(\<exists>e0. fst (QueryContext_select c w) = Inl e0 \<and> e = Errorf ''could not retrieve items: '' e0)
      \<or> (\<exists>rs e0. fst (QueryContext_select c w) = Inr rs \<and> Inl e0 \<in> set rs \<and>
                   e = Errorf ''could not scan item: '' e0)"
  proof (cases r)
    case (Inl e0)
    with f q show ?thesis by (simp add: ListItems_def)
  next
    case (Inr rs)
    with f q have "scan_rows rs [] = Inl e" by (simp add: ListItems_def)
    from scan_rows_err [OF this] Inr q show ?thesis by auto
  qed
qed

theorem ListItems_empty_and_errors_witness:
  "tbl world0 = [] \<and> fst (QueryContext_select None world0) = Inr [] \<and>
   fst (ListItems store0 None world0) = Inr [] \<and>
   fst (ListItems store0 None world_bad_row) =
     Inl (Errorf ''could not scan item: '' (DriverError ''pq: unexpected EOF'')) \<and>
   ((\<exists>e0. fst (QueryContext_select None world_bad_row) = Inl e0 \<and>
          Errorf ''could not scan item: '' (DriverError ''pq: unexpected EOF'') =
          Errorf ''could not retrieve items: '' e0)
    \<or> (\<exists>rs e0. fst (QueryContext_select None world_bad_row) = Inr rs \<and> Inl e0 \<in> set rs \<and>
          Errorf ''could not scan item: '' (DriverError ''pq: unexpected EOF'') =
          Errorf ''could not scan item: '' e0))"
  using ListItems_empty_and_errors [of world0 None "[]" store0]
        ListItems_empty_and_errors [of world_bad_row None _ store0
          "Errorf ''could not scan item: '' (DriverError ''pq: unexpected EOF'')"]
  by (simp add: world0_def QueryContext_select_def next_fault_def deliver_def ListItems_bad_row)

text \<open>
  C9. When \<open>ListItems\<close> fails on a request GET /items, the handler has written nothing:
  the response has status 500 and its body is exactly "internal server error" (no body at
  all on a broken connection), with no line of an item in it, and the error is logged.
\<close>

theorem listItems_failure_no_partial:
  "Method req = ''GET'' \<and> Path req = ''/items'' \<and>
   ListItems (storage s) (ctx req) wd = (Inl e, wd') \<longrightarrow>
   serve s b req wd =
     Some (\<lparr>status = Some 500, body = (if b then [] else ''internal server error''), broken = b\<rparr>,
           logrus \<lparr>lvl = ErrorLevel, flds = [(''error'', FieldErr e)],
                   msg = ''could not process request''\<rparr> wd')"
  by (simp add: serve_def find_get_items run_handler_def ServeHTTP_def listItems_def error_response)

theorem listItems_failure_no_partial_witness:
  "Method get_items = ''GET'' \<and> Path get_items = ''/items'' \<and>
   fst (ListItems (storage server0) (ctx get_items) world_bad_row) =
     Inl (Errorf ''could not scan item: '' (DriverError ''pq: unexpected EOF'')) \<and>
   map_option fst (serve server0 False get_items world_bad_row) =
     Some \<lparr>status = Some 500, body = ''internal server error'', broken = False\<rparr>"
  using listItems_failure_no_partial [of get_items server0 world_bad_row
      "Errorf ''could not scan item: '' (DriverError ''pq: unexpected EOF'')"
      "world_bad_row\<lparr>faults := []\<rparr>" False]
  by (simp add: get_items_def server0_def ListItems_bad_row)

text \<open>
  C3, as stated: every route of the router has an \<open>Endpoint\<close> as its handler. It fails on
  the route of "/", which \<open>router\<close> registers with \<^verbatim>\<open>HandleFunc\<close>.
\<close>

theorem router_not_all_endpoints: "\<not> list_all wrapped (router server0)"
  by (simp add: router_def wrapped_def)

text \<open>
  C3, amended. The router has three routes: "/" for every method with the plain handler
  function \<open>defaultRoute\<close>, POST /items with an \<open>Endpoint\<close> around \<open>createItem\<close>, and
  GET /items with an \<open>Endpoint\<close> around \<open>listItems\<close>. A request for "/" is answered by
  \<open>defaultRoute\<close> itself with status 200 and "Hello World", and nothing is logged. A
  request for /items is answered by the dispatcher \<open>ServeHTTP\<close> of its \<open>Endpoint\<close>, and the
  server sends status 200 when that leaves the response without a status. When the
  handler of an \<open>Endpoint\<close> returns an error, the dispatcher logs it, writes status 500
  (which counts unless the handler has written a status before) and writes
  "internal server error" after what the handler has written (which goes out unless the
  connection is broken); when the handler returns no error, the dispatcher adds nothing.
  So every request that a route matches gets a response with a status.
\<close>

theorem endpoint_dispatch:
  "map (\<lambda>r. (methods r, rpath r, wrapped r)) (router s) =
     [([], ''/'', False), ([''POST''], ''/items'', True), ([''GET''], ''/items'', True)]
   \<and> map hnd (router s) =
       [HandlerFunc (defaultRoute s), EndpointHandler \<lparr>handler = createItem s\<rparr>,
        EndpointHandler \<lparr>handler = listItems s\<rparr>]
   \<and> (Path req = ''/'' \<longrightarrow>
        serve s b req wd =
          Some (\<lparr>status = Some 200, body = (if b then [] else ''Hello World''), broken = b\<rparr>, wd))
   \<and> (Method req = ''POST'' \<and> Path req = ''/items'' \<longrightarrow>
        serve s b req wd =
          Some (WriteHeader 200 (fst (ServeHTTP \<lparr>handler = createItem s\<rparr> (new_writer b) req wd)),
                snd (ServeHTTP \<lparr>handler = createItem s\<rparr> (new_writer b) req wd)))
   \<and> (Method req = ''GET'' \<and> Path req = ''/items'' \<longrightarrow>
        serve s b req wd =
          Some (WriteHeader 200 (fst (ServeHTTP \<lparr>handler = listItems s\<rparr> (new_writer b) req wd)),
                snd (ServeHTTP \<lparr>handler = listItems s\<rparr> (new_writer b) req wd)))
   \<and> (handler e w req wd = (Some er, w', wd') \<longrightarrow>
        ServeHTTP e w req wd =
          (w'\<lparr>status := Some (case status w' of None \<Rightarrow> 500 | Some c \<Rightarrow> c),
              body := (if broken w' then body w' else body w' @ ''internal server error'')\<rparr>,
           wd'\<lparr>logs := logs wd' @ [\<lparr>lvl = ErrorLevel, flds = [(''error'', FieldErr er)],
                                      msg = ''could not process request''\<rparr>]\<rparr>))
   \<and> (handler e w req wd = (None, w', wd') \<longrightarrow> ServeHTTP e w req wd = (w', wd'))
   \<and> (serve s b req wd = Some (w', wd') \<longrightarrow> status w' \<noteq> None)"
proof (intro conjI impI)
  show "map (\<lambda>r. (methods r, rpath r, wrapped r)) (router s) =
     [([], ''/'', False), ([''POST''], ''/items'', True), ([''GET''], ''/items'', True)]"
    by (simp add: router_def wrapped_def)
next
  show "map hnd (router s) =
       [HandlerFunc (defaultRoute s), EndpointHandler \<lparr>handler = createItem s\<rparr>,
        EndpointHandler \<lparr>handler = listItems s\<rparr>]"
    by (simp add: router_def)
next
  assume "Path req = ''/''"
  then show "serve s b req wd =
      Some (\<lparr>status = Some 200, body = (if b then [] else ''Hello World''), broken = b\<rparr>, wd)"
    by (simp add: serve_def router_def matches_def run_handler_def defaultRoute_def new_writer_def
        Write_def WriteHeader_def StatusOK_def)
next
  assume "Method req = ''POST'' \<and> Path req = ''/items''"
  then show "serve s b req wd =
      Some (WriteHeader 200 (fst (ServeHTTP \<lparr>handler = createItem s\<rparr> (new_writer b) req wd)),
            snd (ServeHTTP \<lparr>handler = createItem s\<rparr> (new_writer b) req wd))"
    by (simp add: serve_def find_post_items run_handler_def StatusOK_def split: prod.splits)
next
  assume "Method req = ''GET'' \<and> Path req = ''/items''"
  then show "serve s b req wd =
      Some (WriteHeader 200 (fst (ServeHTTP \<lparr>handler = listItems s\<rparr> (new_writer b) req wd)),
            snd (ServeHTTP \<lparr>handler = listItems s\<rparr> (new_writer b) req wd))"
    by (simp add: serve_def find_get_items run_handler_def StatusOK_def split: prod.splits)
next
  assume "handler e w req wd = (Some er, w', wd')"
  then show "ServeHTTP e w req wd =
          (w'\<lparr>status := Some (case status w' of None \<Rightarrow> 500 | Some c \<Rightarrow> c),
              body := (if broken w' then body w' else body w' @ ''internal server error'')\<rparr>,
           wd'\<lparr>logs := logs wd' @ [\<lparr>lvl = ErrorLevel, flds = [(''error'', FieldErr er)],
                                      msg = ''could not process request''\<rparr>]\<rparr>)"
    by (cases "status w'")
       (simp_all add: ServeHTTP_def Write_def WriteHeader_def logrus_def StatusOK_def
          StatusInternalServerError_def)
next
  assume "handler e w req wd = (None, w', wd')"
  then show "ServeHTTP e w req wd = (w', wd')" by (simp add: ServeHTTP_def)
next
  assume "serve s b req wd = Some (w', wd')"
  then show "status w' \<noteq> None"
    by (auto simp: serve_def WriteHeader_def split: option.splits prod.splits)
qed

theorem endpoint_dispatch_witness:
  "Path \<lparr>Method = ''GET'', Path = ''/'', PostForm = [], ctx = None\<rparr> = ''/'' \<and>
   serve server0 False \<lparr>Method = ''GET'', Path = ''/'', PostForm = [], ctx = None\<rparr> world0 =
     Some (\<lparr>status = Some 200, body = ''Hello World'', broken = False\<rparr>, world0) \<and>
   Method post_widget = ''POST'' \<and> Path post_widget = ''/items'' \<and>
   Method get_items = ''GET'' \<and> Path get_items = ''/items'' \<and>
   handler \<lparr>handler = listItems server0\<rparr> (new_writer False) get_items world_bad_row =
     (Some (Errorf ''could not scan item: '' (DriverError ''pq: unexpected EOF'')),
      new_writer False, world_bad_row\<lparr>faults := []\<rparr>) \<and>
   ServeHTTP \<lparr>handler = listItems server0\<rparr> (new_writer False) get_items world_bad_row =
     (\<lparr>status = Some 500, body = ''internal server error'', broken = False\<rparr>,
      world_bad_row\<lparr>faults := [],
        logs := [\<lparr>lvl = ErrorLevel,
                  flds = [(''error'', FieldErr (Errorf ''could not scan item: ''
                                                 (DriverError ''pq: unexpected EOF'')))],
                  msg = ''could not process request''\<rparr>]\<rparr>) \<and>
   handler \<lparr>handler = listItems server0\<rparr> (new_writer False) get_items world0 =
     (None, new_writer False, world0) \<and>
   ServeHTTP \<lparr>handler = listItems server0\<rparr> (new_writer False) get_items world0 =
     (new_writer False, world0) \<and>
   serve server0 False get_items world0 =
     Some (\<lparr>status = Some 200, body = [], broken = False\<rparr>, world0) \<and>
   status \<lparr>status = Some 200, body = [], broken = False\<rparr> \<noteq> None"
  using endpoint_dispatch [where s = server0 and b = False and wd = world0
          and req = "\<lparr>Method = ''GET'', Path = ''/'', PostForm = [], ctx = None\<rparr>"]
        endpoint_dispatch [where s = server0 and b = False and wd = world0 and req = post_widget]
        endpoint_dispatch [where e = "\<lparr>handler = listItems server0\<rparr>" and w = "new_writer False"
          and req = get_items and wd = world_bad_row and w' = "new_writer False"
          and er = "Errorf ''could not scan item: '' (DriverError ''pq: unexpected EOF'')"
          and wd' = "world_bad_row\<lparr>faults := []\<rparr>"]
        endpoint_dispatch [where e = "\<lparr>handler = listItems server0\<rparr>" and w = "new_writer False"
          and req = get_items and wd = world0 and w' = "new_writer False" and wd' = world0
          and s = server0 and b = False]
        endpoint_dispatch [where s = server0 and b = False and req = get_items and wd = world0
          and w' = "\<lparr>status = Some 200, body = [], broken = False\<rparr>" and wd' = world0]
  by (simp add: listItems_def server0_def get_items_def post_widget_def ListItems_bad_row
      ListItems_world0 new_writer_def WriteHeader_def StatusOK_def logs_world0 logs_world_bad_row)

section \<open>The signal goroutine of main.go\<close>

lemma sig_inv_init: "sig_inv sig_init"
  by (simp add: sig_inv_def sig_init_def)

lemma sig_inv_step: "sig_inv st \<Longrightarrow> sig_inv (sig_step ev st)"
  by (cases ev; cases "spc st"; cases "done_chan st")
     (auto simp: sig_inv_def sig_step_def close_stopper_def)

lemma sig_inv_run: "sig_inv st \<Longrightarrow> sig_inv (sig_run evs st)"
  by (induction evs arbitrary: st) (simp_all add: sig_inv_step)

lemma sig_run_append: "sig_run (xs @ ys) st = sig_run ys (sig_run xs st)"
  by (induction xs arbitrary: st) simp_all

lemma sig_idle:
  "sig_inv st \<Longrightarrow> spc st = AtRecvDone \<Longrightarrow> done_chan st = [] \<Longrightarrow>
   \<forall>ev \<in> set evs. ev = RunSig \<Longrightarrow> sig_run evs st = st"
  by (induction evs arbitrary: st) (simp_all add: sig_step_def sig_inv_def)

lemma signalled_step: "sig_inv st \<Longrightarrow> signalled st \<Longrightarrow> signalled (sig_step ev st)"
  by (cases ev; cases "spc st"; cases "done_chan st")
     (auto simp: sig_inv_def signalled_def sig_step_def close_stopper_def)

lemma signalled_Notify: "sig_inv st \<Longrightarrow> signalled (sig_step (Notify sg) st)"
  by (cases "spc st"; cases "done_chan st") (auto simp: sig_inv_def signalled_def sig_step_def)

lemma sig_rank_step:
  "sig_inv st \<Longrightarrow> signalled st \<Longrightarrow>
   sig_rank (sig_step ev st) = (if ev = RunSig then sig_rank st - 1 else sig_rank st)"
  by (cases ev; cases "spc st"; cases "done_chan st")
     (auto simp: sig_inv_def signalled_def sig_step_def close_stopper_def sig_rank_def)

lemma sig_rank_le: "sig_rank st \<le> 2"
  by (cases "spc st") (simp_all add: sig_rank_def)

lemma sig_progress:
  "sig_inv st \<Longrightarrow> signalled st \<Longrightarrow> sig_rank st \<le> length (filter (\<lambda>ev. ev = RunSig) evs) \<Longrightarrow>
   spc (sig_run evs st) = Finished"
proof (induction evs arbitrary: st)
  case Nil
  then show ?case by (cases "spc st") (simp_all add: sig_rank_def)
next
  case (Cons ev evs)
  have "sig_rank (sig_step ev st) \<le> length (filter (\<lambda>ev. ev = RunSig) evs)"
    using Cons.prems by (simp add: sig_rank_step split: if_splits)
  with Cons show ?case by (simp add: sig_inv_step signalled_step)
qed

text \<open>
  C4. In every run of signals and goroutine steps the channel \<open>stopper\<close> is closed at most
  once and nothing panics. It is not closed in a run without a signal. Once a signal has
  arrived and the goroutine has run its two steps, the channel is closed, exactly once,
  whatever signals arrive before, between or after.
\<close>

theorem stopper_closed_once:
  "(\<not> panicked (sig_run evs sig_init) \<and> closes (sig_run evs sig_init) \<le> 1 \<and>
    (stopper_closed (sig_run evs sig_init) \<longleftrightarrow> closes (sig_run evs sig_init) = 1))
   \<and> ((\<forall>ev \<in> set evs. ev = RunSig) \<longrightarrow>
        \<not> stopper_closed (sig_run evs sig_init) \<and> closes (sig_run evs sig_init) = 0)
   \<and> (evs = pre @ Notify sg # post \<and> 2 \<le> length (filter (\<lambda>ev. ev = RunSig) post) \<longrightarrow>
        stopper_closed (sig_run evs sig_init) \<and> closes (sig_run evs sig_init) = 1)"
proof (intro conjI impI)
  have inv: "sig_inv (sig_run evs sig_init)" by (rule sig_inv_run [OF sig_inv_init])
  show "\<not> panicked (sig_run evs sig_init)" using inv by (simp add: sig_inv_def)
  show "closes (sig_run evs sig_init) \<le> 1"
    using inv by (cases "spc (sig_run evs sig_init)") (simp_all add: sig_inv_def)
  show "stopper_closed (sig_run evs sig_init) \<longleftrightarrow> closes (sig_run evs sig_init) = 1"
    using inv by (cases "spc (sig_run evs sig_init)") (simp_all add: sig_inv_def)
next
  assume "\<forall>ev \<in> set evs. ev = RunSig"
  then have idle: "sig_run evs sig_init = sig_init"
    by (intro sig_idle sig_inv_init) (simp_all add: sig_init_def)
  then show "\<not> stopper_closed (sig_run evs sig_init)" by (simp add: sig_init_def)
  from idle show "closes (sig_run evs sig_init) = 0" by (simp add: sig_init_def)
next
  assume a: "evs = pre @ Notify sg # post \<and> 2 \<le> length (filter (\<lambda>ev. ev = RunSig) post)"
  let ?st = "sig_step (Notify sg) (sig_run pre sig_init)"
  have i0: "sig_inv (sig_run pre sig_init)" by (rule sig_inv_run [OF sig_inv_init])
  have i1: "sig_inv ?st" by (rule sig_inv_step [OF i0])
  have s1: "signalled ?st" by (rule signalled_Notify [OF i0])
  have "sig_rank ?st \<le> length (filter (\<lambda>ev. ev = RunSig) post)"
    using a sig_rank_le [of ?st] by linarith
  from sig_progress [OF i1 s1 this] have fin: "spc (sig_run evs sig_init) = Finished"
    using a by (simp add: sig_run_append)
  have inv: "sig_inv (sig_run evs sig_init)" by (rule sig_inv_run [OF sig_inv_init])
  from inv fin show "stopper_closed (sig_run evs sig_init)" by (simp add: sig_inv_def)
  from inv fin show "closes (sig_run evs sig_init) = 1" by (simp add: sig_inv_def)
qed

theorem stopper_closed_once_witness:
  "[Notify SIGINT, RunSig, Notify SIGTERM, RunSig, Notify SIGINT, Notify SIGINT, RunSig] =
     [] @ Notify SIGINT # [RunSig, Notify SIGTERM, RunSig, Notify SIGINT, Notify SIGINT, RunSig] \<and>
   2 \<le> length (filter (\<lambda>ev. ev = RunSig)
                  [RunSig, Notify SIGTERM, RunSig, Notify SIGINT, Notify SIGINT, RunSig]) \<and>
   set [RunSig, RunSig] = {RunSig} \<and>
   \<not> stopper_closed (sig_run [RunSig, RunSig] sig_init) \<and>
   closes (sig_run [RunSig, RunSig] sig_init) = 0 \<and>
   sig_run [Notify SIGINT, RunSig, Notify SIGTERM, RunSig, Notify SIGINT, Notify SIGINT, RunSig]
     sig_init =
     \<lparr>done_chan = [SIGTERM], spc = Finished, stopper_closed = True, closes = 1, panicked = False\<rparr>"
  using stopper_closed_once
          [of "[Notify SIGINT, RunSig, Notify SIGTERM, RunSig, Notify SIGINT, Notify SIGINT, RunSig]"
              "[]" SIGINT "[RunSig, Notify SIGTERM, RunSig, Notify SIGINT, Notify SIGINT, RunSig]"]
        stopper_closed_once [of "[RunSig, RunSig]" "[]" SIGINT "[]"]
  by (simp add: sig_step_def sig_init_def close_stopper_def)

section \<open>Start, and the exit of the process\<close>

text \<open>The timeout is 30 seconds, and the product does not overflow the 64 bits of a duration.\<close>

lemma defaultStopTimeout_value:
  "defaultStopTimeout = 30000000000 \<and> defaultStopTimeout < 2 ^ 63"
  by (simp add: defaultStopTimeout_def Second_def)




lemma start_run_append:
  "start_run s env (xs @ ys) st = start_run s env ys (start_run s env xs st)"
  by (induction xs arbitrary: st) simp_all




lemma exited_step_sticky: "exited st = Some c \<Longrightarrow> start_step s env ev st = st"
  by (simp add: start_step_def)

lemma exited_run_sticky: "exited st = Some c \<Longrightarrow> start_run s env evs st = st"
  by (induction evs) (simp_all add: exited_step_sticky)











lemma Shutdown_idle: "Shutdown env_idle 30000000000 = None"
  unfolding Shutdown_def by code_simp






text \<open>
  C10. When \<open>ListenAndServe\<close> returns an error other than \<^verbatim>\<open>http.ErrServerClosed\<close> in the
  goroutine of a live process, the goroutine logs "listen: ..." at the fatal level and the
  process exits with code 1 at that step. The caller's thread makes no step after it: a
  call of \<open>Start\<close> that was waiting for the stop channel never calls \<open>Shutdown\<close> and never
  returns, so the listen error is not a value \<open>Start\<close> returns.
\<close>

theorem listen_failure_exits:
  "exited (start_run s env pre (start_init lg)) = None \<and>
   gpc (start_run s env pre (start_init lg)) = InListenAndServe \<and> e \<noteq> ErrServerClosed \<longrightarrow>
   start_run s env (pre @ ListenReturns (Some e) # post) (start_init lg) =
     (start_run s env pre (start_init lg))
       \<lparr>slogs := slogs (start_run s env pre (start_init lg)) @
                   [\<lparr>lvl = FatalLevel, flds = [], msg = ''listen: '' @ Error e @ [CHR 0x0A]\<rparr>],
        exited := Some 1\<rparr>
   \<and> fst (Start s env (pre @ ListenReturns (Some e) # post) lg) = Exits 1"
proof (intro impI)
  let ?st = "start_run s env pre (start_init lg)"
  assume a: "exited ?st = None \<and> gpc ?st = InListenAndServe \<and> e \<noteq> ErrServerClosed"
  then have step: "start_step s env (ListenReturns (Some e)) ?st = Fatalf_listen e ?st"
    by (simp add: start_step_def)
  have "exited (Fatalf_listen e ?st) = Some 1" by (simp add: Fatalf_listen_def)
  then have "start_run s env post (Fatalf_listen e ?st) = Fatalf_listen e ?st"
    by (rule exited_run_sticky)
  with step have "start_run s env (pre @ ListenReturns (Some e) # post) (start_init lg) =
      Fatalf_listen e ?st"
    by (simp add: start_run_append)
  then show "start_run s env (pre @ ListenReturns (Some e) # post) (start_init lg) =
     ?st\<lparr>slogs := slogs ?st @
               [\<lparr>lvl = FatalLevel, flds = [], msg = ''listen: '' @ Error e @ [CHR 0x0A]\<rparr>],
        exited := Some 1\<rparr>
   \<and> fst (Start s env (pre @ ListenReturns (Some e) # post) lg) = Exits 1"
    by (simp add: Start_def Let_def outcome_of_def Fatalf_listen_def)
qed

theorem listen_failure_exits_witness:
  "exited (start_run server0 env_idle [RunGo] (start_init [])) = None \<and>
   gpc (start_run server0 env_idle [RunGo] (start_init [])) = InListenAndServe \<and>
   NetError ''listen tcp :3000: bind: address already in use'' \<noteq> ErrServerClosed \<and>
   Start server0 env_idle
     ([RunGo] @ ListenReturns (Some (NetError ''listen tcp :3000: bind: address already in use'')) #
      [StopFires, RunMain, RunMain]) [] =
     (Exits 1,
      [\<lparr>lvl = InfoLevel, flds = [(''addr'', FieldStr '':3000'')], msg = ''starting server''\<rparr>,
       \<lparr>lvl = FatalLevel, flds = [],
        msg = ''listen: listen tcp :3000: bind: address already in use'' @ [CHR 0x0A]\<rparr>]) \<and>
   mpc (start_run server0 env_idle
     ([RunGo] @ ListenReturns (Some (NetError ''listen tcp :3000: bind: address already in use'')) #
      [StopFires, RunMain, RunMain]) (start_init [])) = AtRecvStop"
  using listen_failure_exits [of server0 "env_idle" "[RunGo]" "[]"
      "NetError ''listen tcp :3000: bind: address already in use''" "[StopFires, RunMain, RunMain]"]
  by (simp add: Start_def start_init_def start_step_def outcome_of_def server0_def Fatalf_listen_def)

text \<open>
  \<open>NewStorage\<close> returns an error only when \<^verbatim>\<open>sql.Open\<close> does, that is when no driver
  \<open>postgres\<close> is registered; the action wraps that error once more.
\<close>

lemma NewStorage_unknown_driver:
  "''postgres'' \<notin> set (drivers p) \<Longrightarrow>
   \<exists>e. fst (NewStorage url p) = Inl (Errorf ''could not open sql: '' e) \<and>
       fst (Action a url env evs p) =
         Returns (Some (Errorf ''could not initialize storage: '' (Errorf ''could not open sql: '' e)))"
  by (simp add: NewStorage_def Action_def sql_Open_err_def Errorf_def Let_def)

text \<open>
  C8, as stated: a bad database URL makes \<open>NewStorage\<close> fail and the process exit at
  construction. It fails for the data source \<open>local-dev@db/api\<close>, with which the driver
  cannot connect: \<open>NewStorage\<close> returns a storage, the server starts, and after the stop
  signal the process exits with code 0.
\<close>

theorem bad_database_url_not_fatal:
  "dial_err process0 ''local-dev@db/api'' = Some (DriverError ''pq: invalid connection string'') \<and>
   fst (NewStorage ''local-dev@db/api'' process0) = Inr \<lparr>conn = ''local-dev@db/api''\<rparr> \<and>
   fst (main '':3000'' ''local-dev@db/api'' env_idle [RunGo, StopFires, RunMain, RunMain] process0) =
     Exits 0"
  by (simp add: process0_def NewStorage_def sql_Open_err_def main_def Action_def NewAPIServer_def
      Start_def start_init_def start_step_def outcome_of_def defaultStopTimeout_def Second_def
      Shutdown_idle)

text \<open>
  C8, amended. A bad database URL is not detected at construction. With the driver
  \<open>postgres\<close> registered, \<open>NewStorage\<close> makes its one call of \<^verbatim>\<open>sql.Open\<close> and returns a
  storage for every URL; with a listen address, \<open>main\<close> then enters \<open>Start\<close> without a
  log entry, and its exit is the one the result of \<open>Start\<close> gives (code 0 when \<open>Start\<close>
  returns nil), with that one call of \<^verbatim>\<open>sql.Open\<close>. The URL is first used on the first
  round trip to the database: there the error of the driver fails the request, which is
  answered with status 500 and "internal server error", and logged. A construction error
  that does occur, the empty listen address, is returned by the action and logged by
  \<open>main\<close> at the fatal level, and the process exits with code 1.
\<close>

theorem NewStorage_accepts_every_url:
  "(''postgres'' \<in> set (drivers p) \<longrightarrow>
      NewStorage url p = (Inr \<lparr>conn = url\<rparr>, p\<lparr>opened := opened p @ [(''postgres'', url)]\<rparr>))
   \<and> (''postgres'' \<in> set (drivers p) \<and> a \<noteq> [] \<longrightarrow>
        main a url env [] p = (Blocked, p\<lparr>opened := opened p @ [(''postgres'', url)]\<rparr>) \<and>
        fst (main a url env evs p) =
          (case fst (Start \<lparr>addr = a, storage = \<lparr>conn = url\<rparr>\<rparr> env evs (plogs p)) of
             Returns None \<Rightarrow> Exits 0
           | Returns (Some er) \<Rightarrow> Exits 1
           | out \<Rightarrow> out) \<and>
        opened (snd (main a url env evs p)) = opened p @ [(''postgres'', url)])
   \<and> (''postgres'' \<in> set (drivers p) \<longrightarrow>
        main [] url env evs p =
          (Exits 1,
           p\<lparr>opened := opened p @ [(''postgres'', url)],
             plogs := plogs p @
               [\<lparr>lvl = FatalLevel, flds = [(''error'', FieldErr (errors_New ''addr cannot be blank''))],
                 msg = ''could not run application''\<rparr>]\<rparr>))
   \<and> (dial_err p (conn (storage s)) = Some e \<and> next_fault wd = first_round_trip p (storage s) \<and>
        Method req = ''POST'' \<and> Path req = ''/items'' \<and> ctx req = None \<longrightarrow>
        serve s b req wd =
          Some (\<lparr>status = Some 500, body = (if b then [] else ''internal server error''), broken = b\<rparr>,
                logrus \<lparr>lvl = ErrorLevel, flds = [(''error'', FieldErr e)],
                        msg = ''could not process request''\<rparr> (round_trip wd)))"
proof (intro conjI impI)
  assume "''postgres'' \<in> set (drivers p)"
  then show "NewStorage url p =
      (Inr \<lparr>conn = url\<rparr>, p\<lparr>opened := opened p @ [(''postgres'', url)]\<rparr>)"
    by (simp add: NewStorage_def sql_Open_err_def Let_def)
next
  assume h: "''postgres'' \<in> set (drivers p) \<and> a \<noteq> []"
  then show "main a url env [] p = (Blocked, p\<lparr>opened := opened p @ [(''postgres'', url)]\<rparr>)"
    by (simp add: main_def Action_def NewStorage_def sql_Open_err_def NewAPIServer_def Let_def
        Start_def start_init_def outcome_of_def)
  obtain out lg where st: "Start \<lparr>addr = a, storage = \<lparr>conn = url\<rparr>\<rparr> env evs (plogs p) = (out, lg)"
    by (cases "Start \<lparr>addr = a, storage = \<lparr>conn = url\<rparr>\<rparr> env evs (plogs p)")
  from h st show "fst (main a url env evs p) =
          (case fst (Start \<lparr>addr = a, storage = \<lparr>conn = url\<rparr>\<rparr> env evs (plogs p)) of
             Returns None \<Rightarrow> Exits 0
           | Returns (Some er) \<Rightarrow> Exits 1
           | out \<Rightarrow> out)"
    by (simp add: main_def Action_def NewStorage_def sql_Open_err_def NewAPIServer_def Let_def
        split: outcome.splits option.splits)
  from h st show "opened (snd (main a url env evs p)) = opened p @ [(''postgres'', url)]"
    by (simp add: main_def Action_def NewStorage_def sql_Open_err_def NewAPIServer_def Let_def
        split: outcome.splits option.splits)
next
  assume "''postgres'' \<in> set (drivers p)"
  then show "main [] url env evs p =
          (Exits 1,
           p\<lparr>opened := opened p @ [(''postgres'', url)],
             plogs := plogs p @
               [\<lparr>lvl = FatalLevel, flds = [(''error'', FieldErr (errors_New ''addr cannot be blank''))],
                 msg = ''could not run application''\<rparr>]\<rparr>)"
    by (simp add: main_def Action_def NewStorage_def sql_Open_err_def NewAPIServer_def Let_def)
next
  assume h: "dial_err p (conn (storage s)) = Some e \<and> next_fault wd = first_round_trip p (storage s) \<and>
        Method req = ''POST'' \<and> Path req = ''/items'' \<and> ctx req = None"
  then have nf: "next_fault wd = QueryFault e" by (simp add: first_round_trip_def)
  from h have rq: "Method req = ''POST''" "Path req = ''/items''" "ctx req = None" by simp_all
  from nf rq have "CreateItem (storage s) (ctx req) \<lparr>Name_req = PostFormValue req ''name''\<rparr> wd =
      (Inl e, round_trip wd)"
    by (simp add: CreateItem_def QueryRowContext_insert_def ScanItem_def)
  with rq show "serve s b req wd =
      Some (\<lparr>status = Some 500, body = (if b then [] else ''internal server error''), broken = b\<rparr>,
            logrus \<lparr>lvl = ErrorLevel, flds = [(''error'', FieldErr e)],
                    msg = ''could not process request''\<rparr> (round_trip wd))"
    by (simp add: serve_def find_post_items run_handler_def ServeHTTP_def createItem_def
        error_response)
qed

theorem NewStorage_accepts_every_url_witness:
  "''postgres'' \<in> set (drivers process0) \<and> '':3000'' \<noteq> [] \<and>
   dial_err process0 (conn (storage server_bad_url)) =
     Some (DriverError ''pq: invalid connection string'') \<and>
   NewStorage ''local-dev@db/api'' process0 =
     (Inr \<lparr>conn = ''local-dev@db/api''\<rparr>, process0\<lparr>opened := [(''postgres'', ''local-dev@db/api'')]\<rparr>) \<and>
   main '':3000'' ''local-dev@db/api'' env_idle [] process0 =
     (Blocked, process0\<lparr>opened := [(''postgres'', ''local-dev@db/api'')]\<rparr>) \<and>
   fst (main '':3000'' ''local-dev@db/api'' env_idle [RunGo, StopFires, RunMain, RunMain] process0) =
     Exits 0 \<and>
   fst (main [] ''local-dev@db/api'' env_idle [RunGo, StopFires, RunMain, RunMain] process0) =
     Exits 1 \<and>
   next_fault world_first_trip = first_round_trip process0 (storage server_bad_url) \<and>
   Method post_widget = ''POST'' \<and> Path post_widget = ''/items'' \<and> ctx post_widget = None \<and>
   map_option fst (serve server_bad_url False post_widget world_first_trip) =
     Some \<lparr>status = Some 500, body = ''internal server error'', broken = False\<rparr>"
  using NewStorage_accepts_every_url
          [where p = process0 and url = "''local-dev@db/api''" and a = "'':3000''" and env = env_idle
             and evs = "[RunGo, StopFires, RunMain, RunMain]" and s = server_bad_url
             and e = "DriverError ''pq: invalid connection string''" and wd = world_first_trip
             and req = post_widget and b = False]
  by (simp add: process0_def server_bad_url_def world_first_trip_def first_round_trip_def
      next_fault_def world0_def post_widget_def Start_def start_init_def start_step_def
      outcome_of_def defaultStopTimeout_def Second_def Shutdown_idle)

end
